theory Spec2Isabelle
  imports Complex_Main "HOL-Library.List_Lexorder" "HOL-Library.Char_ord"
begin

section \<open>Data model\<close>

text \<open>
  The dashboard works on a pandas data frame. A cell is a missing value (\<open>NaN\<close>), a
  number or a string. The survey's numeric columns hold whole numbers, so a number is an
  \<open>int\<close>; rates and means, which the program computes in floating point, are exact
  rationals here. A row gives the cell of every column label (a label that is not among
  the frame's columns is never read), and a frame is its column labels and its rows in
  file order.

  The frames that the dashboard filters and aggregates are those that \<open>load_data\<close>
  returns: a \<open>Year\<close> cell is a number or NaN and a cell of a normalised string column is
  a string. The operations are modelled on such frames.
\<close>

datatype cell = NaN | Num int | Str string

type_synonym row = "string \<Rightarrow> cell"

record dataframe =
  columns :: "string list"
  rows :: "row list"

datatype error =
    KeyError string
  | FileNotFoundError
  | PermissionError
  | ParserError

definition mk_row :: "(string \<times> cell) list \<Rightarrow> row" where
  "mk_row kvs = (\<lambda>c. case map_of kvs c of Some v \<Rightarrow> v | None \<Rightarrow> NaN)"

text \<open>\<open>len(df)\<close>, \<open>c in df.columns\<close>, \<open>df[c]\<close> (a KeyError when the label is absent) and
  \<open>df[mask]\<close>, which keeps the rows whose mask entry is true and every column.\<close>

definition len :: "dataframe \<Rightarrow> nat" where
  "len df = length (rows df)"

definition has_column :: "dataframe \<Rightarrow> string \<Rightarrow> bool" where
  "has_column df c = (c \<in> set (columns df))"

definition col :: "dataframe \<Rightarrow> string \<Rightarrow> cell list" where
  "col df c = map (\<lambda>r. r c) (rows df)"

definition getcol :: "dataframe \<Rightarrow> string \<Rightarrow> error + cell list" where
  "getcol df c = (if has_column df c then Inr (col df c) else Inl (KeyError c))"

definition select_rows :: "dataframe \<Rightarrow> bool list \<Rightarrow> dataframe" where
  "select_rows df m = df\<lparr>rows := map fst (filter snd (zip (rows df) m))\<rparr>"

text \<open>\<open>Series.str.lower()\<close> on the ASCII letters, and the test
  \<open>df['Fintech_Used'].str.lower() == 'yes'\<close>: a cell that is not a string gives NaN under
  \<open>.str\<close>, which is not equal to \<open>'yes'\<close>.\<close>

definition lower_char :: "char \<Rightarrow> char" where
  "lower_char c =
     (case map_of (zip ''ABCDEFGHIJKLMNOPQRSTUVWXYZ'' ''abcdefghijklmnopqrstuvwxyz'') c of
        Some d \<Rightarrow> d | None \<Rightarrow> c)"

definition str_lower :: "string \<Rightarrow> string" where
  "str_lower s = map lower_char s"

fun is_yes :: "cell \<Rightarrow> bool" where
  "is_yes (Str s) = (str_lower s = ''yes'')"
| "is_yes _ = False"

definition fintech_mask :: "dataframe \<Rightarrow> error + bool list" where
  "fintech_mask df =
     (case getcol df ''Fintech_Used'' of Inl e \<Rightarrow> Inl e | Inr vs \<Rightarrow> Inr (map is_yes vs))"

text \<open>\<open>groupby('Year').size()\<close>: the groups are the distinct years that are not NaN, in
  ascending order, each with the number of rows of that year. \<open>Series.mean()\<close> of the
  sizes, and \<open>Series.nunique()\<close>, which does not count NaN.\<close>

fun notna_nums :: "cell list \<Rightarrow> int list" where
  "notna_nums [] = []"
| "notna_nums (Num n # vs) = n # notna_nums vs"
| "notna_nums (v # vs) = notna_nums vs"

definition groupby_size :: "cell list \<Rightarrow> (int \<times> nat) list" where
  "groupby_size vs =
     (let ys = notna_nums vs in map (\<lambda>y. (y, count_list ys y)) (sort (remdups ys)))"

definition mean :: "nat list \<Rightarrow> rat" where
  "mean cs = of_nat (sum_list cs) / of_nat (length cs)"

definition nunique :: "cell list \<Rightarrow> nat" where
  "nunique vs = length (remdups (filter (\<lambda>v. v \<noteq> NaN) vs))"

section \<open>The KPI bundle\<close>

record kpi =
  total :: nat
  fintech_count :: nat
  adoption_rate :: rat
  monthly_avg_users :: rat
  total_countries :: nat

text \<open>The three parts of \<open>kpis\<close> that read a column. The fintech users are taken behind
  a test for the column; the per-year grouping reads \<open>df['Fintech_Used']\<close> behind a test
  for \<open>Year\<close> only.\<close>

definition fintech_users :: "dataframe \<Rightarrow> error + dataframe" where
  "fintech_users df =
     (if has_column df ''Fintech_Used''
      then (case fintech_mask df of Inl e \<Rightarrow> Inl e | Inr m \<Rightarrow> Inr (select_rows df m))
      else Inr (df\<lparr>rows := []\<rparr>))"

definition by_year :: "dataframe \<Rightarrow> error + (int \<times> nat) list" where
  "by_year df =
     (case fintech_mask df of
        Inl e \<Rightarrow> Inl e
      | Inr m \<Rightarrow>
          (case getcol (select_rows df m) ''Year'' of
             Inl e \<Rightarrow> Inl e
           | Inr ys \<Rightarrow> Inr (groupby_size ys)))"

definition monthly_avg :: "dataframe \<Rightarrow> error + rat" where
  "monthly_avg df =
     (if has_column df ''Year''
      then (case by_year df of
              Inl e \<Rightarrow> Inl e
            | Inr g \<Rightarrow> Inr (if g \<noteq> [] then mean (map snd g) else 0))
      else Inr 0)"

definition kpis :: "dataframe \<Rightarrow> error + kpi" where
  "kpis df =
     (let n = len df in
      case fintech_users df of
        Inl e \<Rightarrow> Inl e
      | Inr fu \<Rightarrow>
          let k = len fu;
              rate = (if n \<noteq> 0 then of_nat k / of_nat n * 100 else 0)
          in (case monthly_avg df of
                Inl e \<Rightarrow> Inl e
              | Inr avg \<Rightarrow>
                  Inr \<lparr>total = n, fintech_count = k, adoption_rate = rate,
                       monthly_avg_users = avg,
                       total_countries =
                         (if has_column df ''Country'' then nunique (col df ''Country'')
                          else 0)\<rparr>))"

text \<open>The rows that count as fintech users.\<close>

definition yes_rows :: "dataframe \<Rightarrow> row list" where
  "yes_rows df = filter (\<lambda>r. is_yes (r ''Fintech_Used'')) (rows df)"

text \<open>
  For comparison only: the group sizes that \<open>groupby('Year', dropna=False)\<close> would give,
  with the rows whose year is NaN as one more group. The program does not compute this.
\<close>

definition sizes_keep_null :: "cell list \<Rightarrow> nat list" where
  "sizes_keep_null vs =
     map snd (groupby_size vs) @
     (let k = length (filter (\<lambda>v. v = NaN) vs) in if k = 0 then [] else [k])"

definition null_year_frame :: dataframe where
  "null_year_frame =
     \<lparr>columns = [''Fintech_Used'', ''Year''],
      rows = [mk_row [(''Fintech_Used'', Str ''yes''), (''Year'', Num 2020)],
              mk_row [(''Fintech_Used'', Str ''Yes''), (''Year'', NaN)],
              mk_row [(''Fintech_Used'', Str ''YES''), (''Year'', NaN)]]\<rparr>"

section \<open>The yearly time series of the Trends page\<close>

text \<open>
  The table that \<open>trends_page\<close> builds when the frame has a \<open>Year\<close> column (the body of
  its \<open>if\<close>): rows with a NaN year are dropped, the remaining rows and the fintech users
  among them are counted per year, the two tables are merged on the totals' years with a
  missing user count filled with 0, sorted by year, and the rate is the unguarded quotient
  \<open>Fintech_Users / Total * 100\<close>. Division by zero does not raise in pandas: it gives
  \<open>inf\<close> or \<open>NaN\<close>, which is \<open>None\<close> here.
\<close>

record ts_row =
  Year :: int
  Total :: nat
  Fintech_Users :: nat
  Adoption_Rate :: "rat option"

definition rate_percent :: "nat \<Rightarrow> nat \<Rightarrow> rat option" where
  "rate_percent f t = (if t = 0 then None else Some (of_nat f / of_nat t * 100))"

definition dropna_year :: "dataframe \<Rightarrow> error + dataframe" where
  "dropna_year df =
     (case getcol df ''Year'' of
        Inl e \<Rightarrow> Inl e
      | Inr vs \<Rightarrow> Inr (select_rows df (map (\<lambda>v. v \<noteq> NaN) vs)))"

definition merge_left :: "(int \<times> nat) list \<Rightarrow> (int \<times> nat) list \<Rightarrow> (int \<times> nat \<times> nat) list" where
  "merge_left total_by_year fintech_by_year =
     map (\<lambda>(y, t). (y, t, case map_of fintech_by_year y of None \<Rightarrow> 0 | Some f \<Rightarrow> f))
       total_by_year"

definition time_series :: "dataframe \<Rightarrow> error + ts_row list" where
  "time_series df =
     (case dropna_year df of
        Inl e \<Rightarrow> Inl e
      | Inr df_year \<Rightarrow>
          (case getcol df_year ''Year'' of
             Inl e \<Rightarrow> Inl e
           | Inr ys \<Rightarrow>
               (case fintech_mask df_year of
                  Inl e \<Rightarrow> Inl e
                | Inr m \<Rightarrow>
                    (case getcol (select_rows df_year m) ''Year'' of
                       Inl e \<Rightarrow> Inl e
                     | Inr fys \<Rightarrow>
                         Inr (map (\<lambda>(y, t, f). \<lparr>Year = y, Total = t, Fintech_Users = f,
                                               Adoption_Rate = rate_percent f t\<rparr>)
                                (sort_key fst
                                   (merge_left (groupby_size ys) (groupby_size fys))))))))"

text \<open>The rows of one year.\<close>

definition year_rows :: "dataframe \<Rightarrow> int \<Rightarrow> row list" where
  "year_rows df y = filter (\<lambda>r. r ''Year'' = Num y) (rows df)"

section \<open>The filters of the dashboard\<close>

text \<open>
  The selections of the five filter widgets, as \<open>main\<close> holds them: \<open>None\<close> on the
  Conclusion page, otherwise a value of the select box (the sentinel \<open>'All'\<close> first) and the
  pair of the year slider; \<open>years\<close> stays \<open>None\<close> when the frame has no \<open>Year\<close> column.
\<close>

record filter_spec =
  country :: "string option"
  years :: "(int \<times> int) option"
  gender :: "string option"
  age_group :: "string option"
  location_sel :: "string option"

text \<open>Sequencing of steps that may raise: the first error ends the run.\<close>

definition and_then :: "error + 'a \<Rightarrow> ('a \<Rightarrow> error + 'b) \<Rightarrow> error + 'b" where
  "and_then x f = (case x of Inl e \<Rightarrow> Inl e | Inr v \<Rightarrow> f v)"

text \<open>
  The test \<open>if country and country != 'All'\<close>: \<open>None\<close> and the empty string are falsy. Then
  \<open>df[df[c] == value]\<close>, with no test that the column exists, and the year range
  \<open>df[(df['Year'] >= years[0]) & (df['Year'] <= years[1])]\<close>, in which a comparison with NaN
  is false. \<open>apply_filters\<close> is the block \<open># Apply filters\<close> of \<open>main\<close>, in its order.
\<close>

definition selected :: "string option \<Rightarrow> bool" where
  "selected x = (case x of None \<Rightarrow> False | Some s \<Rightarrow> s \<noteq> [] \<and> s \<noteq> ''All'')"

definition filter_eq :: "string \<Rightarrow> string option \<Rightarrow> dataframe \<Rightarrow> error + dataframe" where
  "filter_eq c x df =
     (case x of
        None \<Rightarrow> Inr df
      | Some s \<Rightarrow>
          if s \<noteq> [] \<and> s \<noteq> ''All''
          then (case getcol df c of
                  Inl e \<Rightarrow> Inl e
                | Inr vs \<Rightarrow> Inr (select_rows df (map (\<lambda>v. v = Str s) vs)))
          else Inr df)"

fun in_range :: "int \<Rightarrow> int \<Rightarrow> cell \<Rightarrow> bool" where
  "in_range lo hi (Num n) = (lo \<le> n \<and> n \<le> hi)"
| "in_range lo hi _ = False"

definition filter_years :: "(int \<times> int) option \<Rightarrow> dataframe \<Rightarrow> error + dataframe" where
  "filter_years ys df =
     (case ys of
        None \<Rightarrow> Inr df
      | Some (lo, hi) \<Rightarrow>
          (case getcol df ''Year'' of
             Inl e \<Rightarrow> Inl e
           | Inr vs \<Rightarrow> Inr (select_rows df (map (in_range lo hi) vs))))"

definition apply_filters :: "dataframe \<Rightarrow> filter_spec \<Rightarrow> error + dataframe" where
  "apply_filters df s =
     and_then (and_then (and_then (and_then
       (filter_eq ''Country'' (country s) df)
       (filter_years (years s)))
       (filter_eq ''Gender'' (gender s)))
       (filter_eq ''Age_Group'' (age_group s)))
       (filter_eq ''Urban_Rural'' (location_sel s))"





text \<open>
  The reading of a filter specification as a predicate on records: a field constrains
  only when it is in effect (not null, not empty, not \<open>'All'\<close>), a year range admits the
  years in \<open>[lo, hi]\<close> and no NaN. \<open>constrained_present\<close>: every column that the
  specification constrains exists in the frame. \<open>unconstrained\<close>: the empty specification.
\<close>

definition matches :: "string \<Rightarrow> string option \<Rightarrow> row \<Rightarrow> bool" where
  "matches c x r =
     (case x of None \<Rightarrow> True | Some s \<Rightarrow> (s \<noteq> [] \<and> s \<noteq> ''All'' \<longrightarrow> r c = Str s))"

definition in_years :: "(int \<times> int) option \<Rightarrow> row \<Rightarrow> bool" where
  "in_years ys r = (case ys of None \<Rightarrow> True | Some (lo, hi) \<Rightarrow> in_range lo hi (r ''Year''))"

definition satisfies :: "filter_spec \<Rightarrow> row \<Rightarrow> bool" where
  "satisfies s r =
     (matches ''Country'' (country s) r \<and> in_years (years s) r
      \<and> matches ''Gender'' (gender s) r \<and> matches ''Age_Group'' (age_group s) r
      \<and> matches ''Urban_Rural'' (location_sel s) r)"

definition constrained_present :: "dataframe \<Rightarrow> filter_spec \<Rightarrow> bool" where
  "constrained_present df s =
     ((selected (country s) \<longrightarrow> has_column df ''Country'')
      \<and> (years s \<noteq> None \<longrightarrow> has_column df ''Year'')
      \<and> (selected (gender s) \<longrightarrow> has_column df ''Gender'')
      \<and> (selected (age_group s) \<longrightarrow> has_column df ''Age_Group'')
      \<and> (selected (location_sel s) \<longrightarrow> has_column df ''Urban_Rural''))"


text \<open>A small survey with one record whose year is missing, and the empty selection.\<close>

definition survey :: dataframe where
  "survey =
     \<lparr>columns = [''Country'', ''Year'', ''Gender''],
      rows = [mk_row [(''Country'', Str ''Kenya''), (''Year'', Num 2020), (''Gender'', Str ''Female'')],
              mk_row [(''Country'', Str ''Ghana''), (''Year'', Num 2020), (''Gender'', Str ''Male'')],
              mk_row [(''Country'', Str ''Kenya''), (''Year'', NaN), (''Gender'', Str ''Male'')],
              mk_row [(''Country'', Str ''Kenya''), (''Year'', Num 2022), (''Gender'', Str ''Male'')]]\<rparr>"


section \<open>Top values by frequency\<close>


fun first_seen :: "'a list \<Rightarrow> 'a list" where
  "first_seen [] = []"
| "first_seen (x # xs) = x # filter (\<lambda>y. y \<noteq> x) (first_seen xs)"







section \<open>Loading and cleaning the dataset\<close>




text \<open>
  Two functions of the library are parameters: how \<open>pd.to_numeric\<close> reads a string as a
  number (\<open>None\<close>: it cannot, and \<open>errors='coerce'\<close> gives NaN), and how \<open>astype(str)\<close>
  writes a number. \<open>fillna('Unknown').astype(str)\<close> on one cell, and the assignment
  \<open>df[c] = \<dots>\<close>, which adds the column at the end when it is new.
\<close>

record pandas =
  parse_number :: "string \<Rightarrow> int option"
  format_number :: "int \<Rightarrow> string"

fun to_numeric :: "pandas \<Rightarrow> cell \<Rightarrow> cell" where
  "to_numeric L (Str s) = (case parse_number L s of Some n \<Rightarrow> Num n | None \<Rightarrow> NaN)"
| "to_numeric L v = v"

fun fillna_astype_str :: "pandas \<Rightarrow> cell \<Rightarrow> cell" where
  "fillna_astype_str L NaN = Str ''Unknown''"
| "fillna_astype_str L (Num n) = Str (format_number L n)"
| "fillna_astype_str L (Str s) = Str s"

definition set_column :: "string \<Rightarrow> (row \<Rightarrow> cell) \<Rightarrow> dataframe \<Rightarrow> dataframe" where
  "set_column c f df =
     \<lparr>columns = (if c \<in> set (columns df) then columns df else columns df @ [c]),
      rows = map (\<lambda>r. r(c := f r)) (rows df)\<rparr>"

text \<open>The body of \<open>load_data\<close>, in its three steps, and the two lists it names.\<close>

definition string_columns :: "string list" where
  "string_columns =
     [''Fintech_Used'', ''Country'', ''Gender'', ''Age_Group'',
      ''Use_Case_1'', ''Use_Case_2'', ''Urban_Rural'', ''Phone_Type'']"


definition coerce_year :: "pandas \<Rightarrow> dataframe \<Rightarrow> dataframe" where
  "coerce_year L df =
     (if has_column df ''Year'' then set_column ''Year'' (\<lambda>r. to_numeric L (r ''Year'')) df
      else df)"

definition normalize_strings :: "pandas \<Rightarrow> dataframe \<Rightarrow> dataframe" where
  "normalize_strings L df =
     (let str_cols = filter (has_column df) string_columns
      in fold (\<lambda>c. set_column c (\<lambda>r. fillna_astype_str L (r c))) str_cols df)"






section \<open>The cache around the loader\<close>












section \<open>Row selection and grouping\<close>

lemma select_rows_map: "select_rows df (map p (rows df)) = df\<lparr>rows := filter p (rows df)\<rparr>"
proof -
  have "map fst (filter snd (zip xs (map p xs))) = filter p xs" for xs :: "row list"
    by (induction xs) simp_all
  then show ?thesis by (simp add: select_rows_def)
qed

lemma fintech_mask_present:
  "has_column df ''Fintech_Used'' \<Longrightarrow>
     fintech_mask df = Inr (map (\<lambda>r. is_yes (r ''Fintech_Used'')) (rows df))"
  by (simp add: fintech_mask_def getcol_def col_def)

lemma fintech_mask_absent:
  "\<not> has_column df ''Fintech_Used'' \<Longrightarrow> fintech_mask df = Inl (KeyError ''Fintech_Used'')"
  by (simp add: fintech_mask_def getcol_def)

lemma by_year_present:
  "has_column df ''Fintech_Used'' \<Longrightarrow> has_column df ''Year'' \<Longrightarrow>
     by_year df = Inr (groupby_size (map (\<lambda>r. r ''Year'')
                        (filter (\<lambda>r. is_yes (r ''Fintech_Used'')) (rows df))))"
  by (simp add: by_year_def fintech_mask_present select_rows_map getcol_def has_column_def col_def)

lemma fintech_users_present:
  "has_column df ''Fintech_Used'' \<Longrightarrow>
     fintech_users df = Inr (df\<lparr>rows := filter (\<lambda>r. is_yes (r ''Fintech_Used'')) (rows df)\<rparr>)"
  by (simp add: fintech_users_def fintech_mask_present select_rows_map)

lemma sum_groupby_size: "sum_list (map snd (groupby_size vs)) = length (notna_nums vs)"
proof -
  define ys where "ys = notna_nums vs"
  have "sum_list (map (count_list ys) (sort (remdups ys))) = sum (count_list ys) (set ys)"
    by (metis distinct_remdups distinct_sort set_remdups set_sort sum_list_distinct_conv_sum_set)
  also have "\<dots> = length ys"
    by (simp add: sum_count_set)
  finally show ?thesis
    by (simp add: groupby_size_def ys_def Let_def comp_def)
qed

lemma length_groupby_size: "length (groupby_size vs) = card (set (notna_nums vs))"
  by (simp add: groupby_size_def Let_def length_remdups_card_conv)

lemma groupby_size_years: "map fst (groupby_size vs) = sort (remdups (notna_nums vs))"
  by (simp add: groupby_size_def Let_def comp_def)

lemma groupby_size_pos: "(y, c) \<in> set (groupby_size vs) \<Longrightarrow> 0 < c"
proof -
  assume "(y, c) \<in> set (groupby_size vs)"
  then have "y \<in> set (notna_nums vs)" and "c = count_list (notna_nums vs) y"
    by (auto simp: groupby_size_def Let_def)
  then show "0 < c"
    using count_list_0_iff [of "notna_nums vs" y] by simp
qed

lemma kpis_values:
  assumes "has_column df ''Year'' \<longrightarrow> has_column df ''Fintech_Used''"
  shows "kpis df = Inr
     \<lparr>total = length (rows df),
      fintech_count = (if has_column df ''Fintech_Used'' then length (yes_rows df) else 0),
      adoption_rate =
        (if rows df = [] then 0
         else if has_column df ''Fintech_Used''
         then of_nat (length (yes_rows df)) / of_nat (length (rows df)) * 100 else 0),
      monthly_avg_users =
        (if has_column df ''Year'' \<and> notna_nums (map (\<lambda>r. r ''Year'') (yes_rows df)) \<noteq> []
         then mean (map snd (groupby_size (map (\<lambda>r. r ''Year'') (yes_rows df)))) else 0),
      total_countries =
        (if has_column df ''Country'' then nunique (col df ''Country'') else 0)\<rparr>"
proof (cases "has_column df ''Fintech_Used''")
  case True
  have g: "groupby_size vs \<noteq> [] \<longleftrightarrow> notna_nums vs \<noteq> []" for vs
  proof -
    have "set (sort (remdups (notna_nums vs))) = set (notna_nums vs)" by simp
    then have "sort (remdups (notna_nums vs)) = [] \<longleftrightarrow> notna_nums vs = []"
      by (metis set_empty)
    then show ?thesis by (simp add: groupby_size_def Let_def)
  qed
  show ?thesis
    using True
    by (simp add: kpis_def Let_def fintech_users_present monthly_avg_def by_year_present
        len_def yes_rows_def g)
next
  case False
  with assms have "\<not> has_column df ''Year''" by simp
  with False show ?thesis
    by (simp add: kpis_def Let_def fintech_users_def monthly_avg_def len_def)
qed

section \<open>Missing columns in the KPIs\<close>

text \<open>
  C1. The claim: on a dataset that has a \<open>Year\<close> column and no \<open>Fintech_Used\<close> column,
  \<open>kpis\<close> still returns a result, with \<open>fintech_count = 0\<close>. The code does not: the
  fintech users are computed behind a test for the column, but the per-year grouping
  reads \<open>df['Fintech_Used']\<close> again with no test, and the lookup raises KeyError. The
  frame below has the single column \<open>Year\<close> and one row.
\<close>

theorem kpis_year_without_fintech_used:
  "kpis \<lparr>columns = [''Year''], rows = [mk_row [(''Year'', Num 2020)]]\<rparr>
     = Inl (KeyError ''Fintech_Used'')"
  by (simp add: kpis_def fintech_users_def monthly_avg_def by_year_def fintech_mask_def
      getcol_def has_column_def len_def)

text \<open>
  C2. The claim gives the five values of \<open>kpis\<close> for every dataset. Lemma
  \<open>kpis_values\<close> above proves exactly these values whenever the frame has a
  \<open>Fintech_Used\<close> column or has no \<open>Year\<close> column. On a frame with \<open>Year\<close> and without
  \<open>Fintech_Used\<close> the code returns no value at all: the unguarded read that fails C1
  raises KeyError, here on a frame with a \<open>Country\<close> and a \<open>Year\<close> column.
\<close>

theorem kpis_no_values_without_fintech_used:
  "kpis \<lparr>columns = [''Country'', ''Year''],
         rows = [mk_row [(''Country'', Str ''Kenya''), (''Year'', Num 2021)]]\<rparr>
     = Inl (KeyError ''Fintech_Used'')"
  by (simp add: kpis_def fintech_users_def monthly_avg_def by_year_def fintech_mask_def
      getcol_def has_column_def len_def)

section \<open>Fintech users whose year is missing\<close>

lemma notna_nums_append: "notna_nums (us @ vs) = notna_nums us @ notna_nums vs"
  by (induction us rule: notna_nums.induct) simp_all

lemma null_year_frame_kpis:
  "kpis null_year_frame =
     Inr \<lparr>total = 3, fintech_count = 3, adoption_rate = 100, monthly_avg_users = 1,
          total_countries = 0\<rparr>"
  by (simp add: null_year_frame_def kpis_values has_column_def yes_rows_def mk_row_def
      str_lower_def lower_char_def groupby_size_def mean_def)

lemma null_year_frame_mean:
  "mean (sizes_keep_null (map (\<lambda>r. r ''Year'') (yes_rows null_year_frame))) = 3 / 2"
  by (simp add: null_year_frame_def yes_rows_def mk_row_def sizes_keep_null_def
      str_lower_def lower_char_def groupby_size_def mean_def)

text \<open>
  C10. A record \<open>r\<close> that is a fintech user with a NaN year, anywhere in a frame that has
  both columns: compared with the frame without \<open>r\<close>, \<open>fintech_count\<close> is one more and
  \<open>adoption_rate\<close> counts \<open>r\<close> in numerator and denominator, while the per-year grouping
  and \<open>monthly_avg_users\<close> are unchanged. And \<open>monthly_avg_users\<close> can be less than the
  mean that includes the users without a year: on \<open>null_year_frame\<close> it is 1, against 3/2
  when the two such users form a group of their own.
\<close>

theorem kpis_null_year_user:
  assumes "has_column df ''Fintech_Used''" and "has_column df ''Year''"
    and "rows df = xs @ r # ys"
    and "is_yes (r ''Fintech_Used'')" and "r ''Year'' = NaN"
  shows "(\<exists>k k'. kpis df = Inr k \<and> kpis (df\<lparr>rows := xs @ ys\<rparr>) = Inr k'
           \<and> fintech_count k = fintech_count k' + 1
           \<and> adoption_rate k = of_nat (fintech_count k' + 1) / of_nat (total k' + 1) * 100
           \<and> by_year df = by_year (df\<lparr>rows := xs @ ys\<rparr>)
           \<and> monthly_avg_users k = monthly_avg_users k')
       \<and> (\<exists>k. kpis null_year_frame = Inr k
           \<and> monthly_avg_users k
               < mean (sizes_keep_null (map (\<lambda>r. r ''Year'') (yes_rows null_year_frame))))"
proof -
  let ?df' = "df\<lparr>rows := xs @ ys\<rparr>"
  have c: "has_column ?df' ''Fintech_Used''" "has_column ?df' ''Year''"
    using assms(1,2) by (simp_all add: has_column_def)
  have y: "notna_nums (map (\<lambda>r. r ''Year'') (yes_rows df))
             = notna_nums (map (\<lambda>r. r ''Year'') (yes_rows ?df'))"
    using assms(3,4,5) by (simp add: yes_rows_def notna_nums_append)
  have g: "groupby_size (map (\<lambda>r. r ''Year'') (yes_rows df))
             = groupby_size (map (\<lambda>r. r ''Year'') (yes_rows ?df'))"
    using y by (simp add: groupby_size_def)
  have l: "length (yes_rows df) = length (yes_rows ?df') + 1"
    using assms(3,4) by (simp add: yes_rows_def)
  have b: "by_year df = by_year ?df'"
    using g assms(1,2) c by (simp add: by_year_present yes_rows_def)
  have "\<exists>k k'. kpis df = Inr k \<and> kpis ?df' = Inr k'
           \<and> fintech_count k = fintech_count k' + 1
           \<and> adoption_rate k = of_nat (fintech_count k' + 1) / of_nat (total k' + 1) * 100
           \<and> by_year df = by_year ?df'
           \<and> monthly_avg_users k = monthly_avg_users k'"
    using assms(1,2,3) c y g l b by (simp add: kpis_values)
  moreover have "\<exists>k. kpis null_year_frame = Inr k
           \<and> monthly_avg_users k
               < mean (sizes_keep_null (map (\<lambda>r. r ''Year'') (yes_rows null_year_frame)))"
    by (simp add: null_year_frame_kpis null_year_frame_mean)
  ultimately show ?thesis by blast
qed

theorem kpis_null_year_user_witness:
  "has_column null_year_frame ''Fintech_Used'' \<and> has_column null_year_frame ''Year''
   \<and> rows null_year_frame
       = [mk_row [(''Fintech_Used'', Str ''yes''), (''Year'', Num 2020)]]
         @ mk_row [(''Fintech_Used'', Str ''Yes''), (''Year'', NaN)]
         # [mk_row [(''Fintech_Used'', Str ''YES''), (''Year'', NaN)]]
   \<and> is_yes (mk_row [(''Fintech_Used'', Str ''Yes''), (''Year'', NaN)] ''Fintech_Used'')
   \<and> mk_row [(''Fintech_Used'', Str ''Yes''), (''Year'', NaN)] ''Year'' = NaN
   \<and> (\<exists>k k'. kpis null_year_frame = Inr k
         \<and> kpis (null_year_frame
               \<lparr>rows := [mk_row [(''Fintech_Used'', Str ''yes''), (''Year'', Num 2020)]]
                         @ [mk_row [(''Fintech_Used'', Str ''YES''), (''Year'', NaN)]]\<rparr>) = Inr k'
         \<and> fintech_count k = fintech_count k' + 1
         \<and> monthly_avg_users k = monthly_avg_users k')"
proof -
  have h: "has_column null_year_frame ''Fintech_Used''" "has_column null_year_frame ''Year''"
    by (simp_all add: null_year_frame_def has_column_def)
  have r: "rows null_year_frame
       = [mk_row [(''Fintech_Used'', Str ''yes''), (''Year'', Num 2020)]]
         @ mk_row [(''Fintech_Used'', Str ''Yes''), (''Year'', NaN)]
         # [mk_row [(''Fintech_Used'', Str ''YES''), (''Year'', NaN)]]"
    by (simp add: null_year_frame_def)
  have y: "is_yes (mk_row [(''Fintech_Used'', Str ''Yes''), (''Year'', NaN)] ''Fintech_Used'')"
    by (simp add: mk_row_def str_lower_def lower_char_def)
  have n: "mk_row [(''Fintech_Used'', Str ''Yes''), (''Year'', NaN)] ''Year'' = NaN"
    by (simp add: mk_row_def)
  show ?thesis
    using kpis_null_year_user [OF h r y n] h r y n by blast
qed

section \<open>The yearly time series\<close>

lemma notna_nums_filter: "notna_nums (filter (\<lambda>v. v \<noteq> NaN) vs) = notna_nums vs"
  by (induction vs rule: notna_nums.induct) simp_all

lemma notna_nums_map_filter:
  "notna_nums (map f (filter (\<lambda>r. f r \<noteq> NaN) xs)) = notna_nums (map f xs)"
proof -
  have "map f (filter (\<lambda>r. f r \<noteq> NaN) xs) = filter (\<lambda>v. v \<noteq> NaN) (map f xs)"
    by (simp add: filter_map comp_def)
  then show ?thesis by (simp add: notna_nums_filter)
qed

lemma count_notna_nums: "count_list (notna_nums vs) y = length (filter (\<lambda>v. v = Num y) vs)"
  by (induction vs rule: notna_nums.induct) simp_all

lemma map_of_groupby_size:
  "(case map_of (groupby_size vs) y of None \<Rightarrow> 0 | Some f \<Rightarrow> f) = count_list (notna_nums vs) y"
proof -
  have "map_of (map (\<lambda>y. (y, g y)) ys) y = (if y \<in> set ys then Some (g y) else None)"
    for g :: "int \<Rightarrow> nat" and ys
    by (induction ys) simp_all
  then show ?thesis
    by (simp add: groupby_size_def Let_def count_list_0_iff)
qed

lemma merge_left_groupby:
  "merge_left (groupby_size vs) (groupby_size ws) =
     map (\<lambda>y. (y, count_list (notna_nums vs) y, count_list (notna_nums ws) y))
       (sort (remdups (notna_nums vs)))"
  unfolding merge_left_def map_of_groupby_size
  by (simp add: groupby_size_def Let_def comp_def)

lemma sort_key_fst_sorted:
  "sort_key fst (map (\<lambda>y. (y, g y)) (sort ys)) = map (\<lambda>y. (y, g y)) (sort ys)"
  for ys :: "int list"
  by (rule sort_key_id_if_sorted) (simp add: comp_def)

lemma time_series_present:
  assumes "has_column df ''Year''" and "has_column df ''Fintech_Used''"
  shows "time_series df = Inr
     (map (\<lambda>y. \<lparr>Year = y,
                Total = length (year_rows df y),
                Fintech_Users = length (filter (\<lambda>r. is_yes (r ''Fintech_Used'')) (year_rows df y)),
                Adoption_Rate =
                  Some (of_nat (length (filter (\<lambda>r. is_yes (r ''Fintech_Used'')) (year_rows df y)))
                        / of_nat (length (year_rows df y)) * 100)\<rparr>)
        (sort (remdups (notna_nums (col df ''Year'')))))"
proof -
  let ?yes = "\<lambda>r::row. is_yes (r ''Fintech_Used'')"
  let ?year = "\<lambda>r::row. r ''Year''"
  let ?notna = "\<lambda>r::row. r ''Year'' \<noteq> NaN"
  let ?dy = "df\<lparr>rows := filter ?notna (rows df)\<rparr>"
  let ?fy = "df\<lparr>rows := filter ?yes (filter ?notna (rows df))\<rparr>"
  let ?A = "map ?year (filter ?notna (rows df))"
  let ?B = "map ?year (filter ?yes (filter ?notna (rows df)))"
  let ?mk = "\<lambda>(y, t, f). \<lparr>Year = y, Total = t, Fintech_Users = f,
                           Adoption_Rate = rate_percent f t\<rparr>"
  have d: "dropna_year df = Inr ?dy"
    using assms(1) select_rows_map [of df ?notna]
    by (simp add: dropna_year_def getcol_def col_def comp_def)
  have g1: "getcol ?dy ''Year'' = Inr ?A"
    using assms(1) by (simp add: getcol_def has_column_def col_def)
  have m: "fintech_mask ?dy = Inr (map ?yes (filter ?notna (rows df)))"
    using assms(2) fintech_mask_present [of ?dy] by (simp add: has_column_def)
  have s: "select_rows ?dy (map ?yes (filter ?notna (rows df))) = ?fy"
    using select_rows_map [of ?dy ?yes] by simp
  have g2: "getcol (df\<lparr>rows := xs\<rparr>) ''Year'' = Inr (map ?year xs)" for xs
    using assms(1) by (simp add: getcol_def has_column_def col_def)
  have ts: "time_series df
              = Inr (map ?mk (sort_key fst (merge_left (groupby_size ?A) (groupby_size ?B))))"
    by (simp add: time_series_def d g1 m s g2)
  have ys: "notna_nums ?A = notna_nums (col df ''Year'')"
    by (simp add: col_def notna_nums_map_filter)
  have t: "count_list (notna_nums (col df ''Year'')) y = length (year_rows df y)" for y
    by (simp add: count_notna_nums col_def year_rows_def filter_map comp_def)
  have f: "count_list (notna_nums ?B) y = length (filter ?yes (year_rows df y))" for y
  proof -
    have "filter (\<lambda>r. r ''Year'' = Num y) (filter ?yes (filter ?notna (rows df)))
            = filter ?yes (filter (\<lambda>r. r ''Year'' = Num y) (rows df))"
      by (auto intro: filter_cong)
    then show ?thesis
      by (simp add: count_notna_nums year_rows_def filter_map comp_def)
  qed
  have p: "length (year_rows df y) \<noteq> 0" if "y \<in> set (notna_nums (col df ''Year''))" for y
    using that t [of y] count_list_0_iff [of "notna_nums (col df ''Year'')" y] by simp
  have "sort_key fst (merge_left (groupby_size ?A) (groupby_size ?B))
          = map (\<lambda>y. (y, length (year_rows df y), length (filter ?yes (year_rows df y))))
              (sort (remdups (notna_nums (col df ''Year''))))"
    unfolding merge_left_groupby ys t f by (rule sort_key_fst_sorted)
  then show ?thesis
    unfolding ts using p by (simp add: rate_percent_def)
qed

lemma set_notna_nums: "set (notna_nums vs) = {y. Num y \<in> set vs}"
  by (induction vs rule: notna_nums.induct) auto

lemma year_rows_nonempty:
  assumes "Num y \<in> set (col df ''Year'')"
  shows "0 < length (year_rows df y)"
proof -
  from assms obtain r where "r \<in> set (rows df)" and "r ''Year'' = Num y"
    by (auto simp: col_def)
  then have "r \<in> set (year_rows df y)" by (simp add: year_rows_def)
  then show ?thesis by (rule length_pos_if_in_set)
qed

lemma time_series_values:
  assumes "has_column df ''Year''" and "has_column df ''Fintech_Used''"
  shows "\<exists>ts. time_series df = Inr ts
           \<and> sorted_wrt (<) (map Year ts)
           \<and> distinct (map Year ts)
           \<and> set (map Year ts) = {y. Num y \<in> set (col df ''Year'')}
           \<and> (\<forall>t \<in> set ts.
                 Total t = length (year_rows df (Year t))
               \<and> Fintech_Users t
                   = length (filter (\<lambda>r. is_yes (r ''Fintech_Used'')) (year_rows df (Year t)))
               \<and> 0 < Total t
               \<and> Adoption_Rate t = Some (of_nat (Fintech_Users t) / of_nat (Total t) * 100))"
proof -
  let ?ys = "sort (remdups (notna_nums (col df ''Year'')))"
  let ?mk = "\<lambda>y. \<lparr>Year = y,
                Total = length (year_rows df y),
                Fintech_Users = length (filter (\<lambda>r. is_yes (r ''Fintech_Used'')) (year_rows df y)),
                Adoption_Rate =
                  Some (of_nat (length (filter (\<lambda>r. is_yes (r ''Fintech_Used'')) (year_rows df y)))
                        / of_nat (length (year_rows df y)) * 100)\<rparr>"
  have ts: "time_series df = Inr (map ?mk ?ys)"
    by (rule time_series_present [OF assms])
  have y: "map Year (map ?mk ?ys) = ?ys"
    by (simp add: comp_def)
  have s: "sorted_wrt (<) ?ys" "distinct ?ys"
    by (simp_all add: strict_sorted_iff)
  have e: "set ?ys = {y. Num y \<in> set (col df ''Year'')}"
    by (simp add: set_notna_nums)
  have r: "\<forall>t \<in> set (map ?mk ?ys).
                 Total t = length (year_rows df (Year t))
               \<and> Fintech_Users t
                   = length (filter (\<lambda>r. is_yes (r ''Fintech_Used'')) (year_rows df (Year t)))
               \<and> 0 < Total t
               \<and> Adoption_Rate t = Some (of_nat (Fintech_Users t) / of_nat (Total t) * 100)"
    using year_rows_nonempty [of _ df] by (auto simp: set_notna_nums)
  show ?thesis
    unfolding ts using y s e r by (intro exI [of _ "map ?mk ?ys"]) (simp only: simp_thms)
qed

text \<open>
  C4. The claim is stated for every dataset with a \<open>Year\<close> column. With a
  \<open>Fintech_Used\<close> column as well, \<open>time_series_values\<close> above gives all of it: the years
  strictly ascending and distinct, every year of the totals present with its user count
  (0 when it has none), a positive \<open>Total\<close> and the rate \<open>Fintech_Users / Total * 100\<close>.
  Without a \<open>Fintech_Used\<close> column the code lists nothing: \<open>df_year['Fintech_Used']\<close> is
  read with no test for the column and raises KeyError.
\<close>

theorem time_series_without_fintech_used:
  "time_series \<lparr>columns = [''Year''],
                rows = [mk_row [(''Year'', Num 2020)], mk_row [(''Year'', Num 2021)]]\<rparr>
     = Inl (KeyError ''Fintech_Used'')"
  by (simp add: time_series_def dropna_year_def getcol_def has_column_def col_def
      select_rows_def fintech_mask_def)

section \<open>Filtering\<close>

lemma filter_eq_present:
  assumes "selected x \<longrightarrow> has_column df c"
  shows "filter_eq c x df = Inr (df\<lparr>rows := filter (matches c x) (rows df)\<rparr>)"
proof (cases "selected x")
  case True
  then obtain v where x: "x = Some v" and v: "v \<noteq> []" "v \<noteq> ''All''"
    by (auto simp: selected_def split: option.splits)
  have m: "matches c (Some v) = (\<lambda>r. r c = Str v)"
    using v by (simp add: matches_def fun_eq_iff)
  from True assms have "has_column df c" by simp
  then show ?thesis
    using select_rows_map [of df "\<lambda>r. r c = Str v"] x v
    by (simp add: filter_eq_def m getcol_def col_def comp_def)
next
  case False
  then have "matches c x = (\<lambda>r. True)"
    by (auto simp: selected_def matches_def fun_eq_iff split: option.splits)
  with False show ?thesis
    by (auto simp: filter_eq_def selected_def split: option.splits)
qed

lemma filter_years_present:
  assumes "ys \<noteq> None \<longrightarrow> has_column df ''Year''"
  shows "filter_years ys df = Inr (df\<lparr>rows := filter (in_years ys) (rows df)\<rparr>)"
proof (cases ys)
  case None
  then show ?thesis by (simp add: filter_years_def in_years_def)
next
  case (Some p)
  obtain lo hi where p: "p = (lo, hi)" by (cases p)
  have m: "in_years (Some (lo, hi)) = (\<lambda>r. in_range lo hi (r ''Year''))"
    by (simp add: in_years_def fun_eq_iff)
  from Some assms have "has_column df ''Year''" by simp
  then show ?thesis
    using select_rows_map [of df "\<lambda>r. in_range lo hi (r ''Year'')"] Some p
    by (simp add: filter_years_def m getcol_def col_def comp_def)
qed

lemma has_column_rows [simp]: "has_column (df\<lparr>rows := xs\<rparr>) c = has_column df c"
  by (simp add: has_column_def)

lemma apply_filters_present:
  assumes "constrained_present df s"
  shows "apply_filters df s = Inr (df\<lparr>rows := filter (satisfies s) (rows df)\<rparr>)"
proof -
  have "filter (satisfies s) xs
          = filter (matches ''Urban_Rural'' (location_sel s))
              (filter (matches ''Age_Group'' (age_group s))
                (filter (matches ''Gender'' (gender s))
                  (filter (in_years (years s))
                    (filter (matches ''Country'' (country s)) xs))))" for xs
    by (auto simp: satisfies_def intro: filter_cong)
  then show ?thesis
    using assms
    by (simp add: apply_filters_def and_then_def constrained_present_def
        filter_eq_present filter_years_present del: filter_filter)
qed


lemma select_rows_subset: "set (rows (select_rows df m)) \<subseteq> set (rows df)"
  by (auto simp: select_rows_def dest: set_zip_leftD)

lemma filter_eq_subset:
  assumes "filter_eq c x d = Inr d'"
  shows "set (rows d') \<subseteq> set (rows d)"
  using assms select_rows_subset [of d]
  by (auto simp: filter_eq_def split: option.splits if_splits sum.splits)

lemma filter_years_in_range:
  assumes "filter_years (Some (lo, hi)) d = Inr d'"
  shows "\<forall>r \<in> set (rows d'). in_range lo hi (r ''Year'')"
proof -
  from assms have c: "has_column d ''Year''"
    by (auto simp: filter_years_def getcol_def split: if_splits)
  then have "filter_years (Some (lo, hi)) d
               = Inr (d\<lparr>rows := filter (in_years (Some (lo, hi))) (rows d)\<rparr>)"
    by (simp add: filter_years_present)
  with assms have "rows d' = filter (in_years (Some (lo, hi))) (rows d)"
    by auto
  then show ?thesis by (simp add: in_years_def)
qed

lemma apply_filters_in_range:
  assumes "apply_filters df s = Inr df'" and "years s = Some (lo, hi)"
  shows "\<forall>r \<in> set (rows df'). in_range lo hi (r ''Year'')"
proof -
  from assms(1) obtain d1 d2 d3 d4 where
    "filter_eq ''Country'' (country s) df = Inr d1"
    and y: "filter_years (years s) d1 = Inr d2"
    and g: "filter_eq ''Gender'' (gender s) d2 = Inr d3"
    and a: "filter_eq ''Age_Group'' (age_group s) d3 = Inr d4"
    and l: "filter_eq ''Urban_Rural'' (location_sel s) d4 = Inr df'"
    by (auto simp: apply_filters_def and_then_def split: sum.splits)
  from y assms(2) have "\<forall>r \<in> set (rows d2). in_range lo hi (r ''Year'')"
    by (simp add: filter_years_in_range)
  moreover have "set (rows df') \<subseteq> set (rows d2)"
    using filter_eq_subset [OF g] filter_eq_subset [OF a] filter_eq_subset [OF l] by blast
  ultimately show ?thesis by blast
qed







text \<open>
  C9. On a dataset with a \<open>Year\<close> column and a year range \<open>[lo, hi]\<close> in effect, whatever
  the bounds: no record of the filtered result has a NaN year, so the result differs from
  the input as soon as one record of the input has a NaN year; and the result exists
  whenever the other constrained columns exist.
\<close>

theorem year_range_excludes_null_years:
  assumes "has_column df ''Year''" and "years s = Some (lo, hi)"
  shows "(\<forall>df'. apply_filters df s = Inr df' \<longrightarrow>
            (\<forall>r \<in> set (rows df'). r ''Year'' \<noteq> NaN)
          \<and> ((\<exists>r \<in> set (rows df). r ''Year'' = NaN) \<longrightarrow> df' \<noteq> df))
       \<and> (constrained_present df s \<longrightarrow> (\<exists>df'. apply_filters df s = Inr df'))"
proof (intro conjI allI impI)
  fix df'
  assume a: "apply_filters df s = Inr df'"
  have r: "\<forall>r \<in> set (rows df'). in_range lo hi (r ''Year'')"
    using a assms(2) by (rule apply_filters_in_range)
  then show n: "\<forall>r \<in> set (rows df'). r ''Year'' \<noteq> NaN"
    by auto
  assume "\<exists>r \<in> set (rows df). r ''Year'' = NaN"
  with n show "df' \<noteq> df" by auto
next
  assume "constrained_present df s"
  then show "\<exists>df'. apply_filters df s = Inr df'"
    by (simp add: apply_filters_present)
qed

theorem year_range_excludes_null_years_witness:
  "has_column survey ''Year''
   \<and> years \<lparr>country = Some ''All'', years = Some (2020, 2022), gender = Some ''All'',
              age_group = Some ''All'', location_sel = Some ''All''\<rparr> = Some (2020, 2022)
   \<and> constrained_present survey
        \<lparr>country = Some ''All'', years = Some (2020, 2022), gender = Some ''All'',
         age_group = Some ''All'', location_sel = Some ''All''\<rparr>
   \<and> (\<exists>r \<in> set (rows survey). r ''Year'' = NaN)
   \<and> (\<exists>df'. apply_filters survey
           \<lparr>country = Some ''All'', years = Some (2020, 2022), gender = Some ''All'',
            age_group = Some ''All'', location_sel = Some ''All''\<rparr> = Inr df'
         \<and> (\<forall>r \<in> set (rows df'). r ''Year'' \<noteq> NaN) \<and> df' \<noteq> survey)"
proof -
  let ?s = "\<lparr>country = Some ''All'', years = Some (2020, 2022), gender = Some ''All'',
             age_group = Some ''All'', location_sel = Some ''All''\<rparr>"
  have h: "has_column survey ''Year''"
    by (simp add: survey_def has_column_def)
  have y: "years ?s = Some (2020, 2022)" by simp
  have c: "constrained_present survey ?s"
    by (simp add: constrained_present_def selected_def survey_def has_column_def)
  have n: "\<exists>r \<in> set (rows survey). r ''Year'' = NaN"
    by (simp add: survey_def mk_row_def)
  show ?thesis
    using year_range_excludes_null_years [OF h y] h c n by auto
qed

section \<open>Ranking by frequency\<close>

lemma set_first_seen [simp]: "set (first_seen xs) = set xs"
  by (induction xs) auto

lemma distinct_first_seen [simp]: "distinct (first_seen xs)"
  by (induction xs) auto










section \<open>The loader\<close>

lemma fold_set_column:
  assumes "distinct cs" and "set cs \<subseteq> set (columns df)"
  shows "columns (fold (\<lambda>c. set_column c (\<lambda>r. g (r c))) cs df) = columns df
       \<and> rows (fold (\<lambda>c. set_column c (\<lambda>r. g (r c))) cs df)
           = map (\<lambda>r c. if c \<in> set cs then g (r c) else r c) (rows df)"
  using assms
proof (induction cs arbitrary: df)
  case Nil
  then show ?case by simp
next
  case (Cons a cs)
  let ?d = "set_column a (\<lambda>r. g (r a)) df"
  have c: "columns ?d = columns df"
    using Cons.prems(2) by (auto simp: set_column_def)
  have r: "rows ?d = map (\<lambda>r. r(a := g (r a))) (rows df)"
    by (simp add: set_column_def)
  have i: "columns (fold (\<lambda>c. set_column c (\<lambda>r. g (r c))) cs ?d) = columns ?d
       \<and> rows (fold (\<lambda>c. set_column c (\<lambda>r. g (r c))) cs ?d)
           = map (\<lambda>r c. if c \<in> set cs then g (r c) else r c) (rows ?d)"
    using Cons.prems c by (intro Cons.IH) auto
  have f: "(\<lambda>c. if c \<in> set cs then g ((r(a := g (r a))) c) else (r(a := g (r a))) c)
             = (\<lambda>c. if c \<in> set (a # cs) then g (r c) else r c)" for r :: row
    using Cons.prems(1) by (auto simp: fun_eq_iff)
  show ?case
    using i f unfolding c r by (simp add: comp_def)
qed

lemma coerce_year_columns [simp]: "columns (coerce_year L raw) = columns raw"
  by (simp add: coerce_year_def set_column_def has_column_def)


lemma normalize_strings_columns [simp]: "columns (normalize_strings L df) = columns df"
  unfolding normalize_strings_def Let_def
  using fold_set_column [of "filter (has_column df) string_columns" df]
  by (auto simp: string_columns_def has_column_def)









section \<open>Memoization\<close>




end
